theory Spec2Isabelle
  imports Main "HOL-Library.AList"
begin

section \<open>Values, module instances and the world\<close>

text \<open>
  The base class \<open>Module\<close> of \<^verbatim>\<open>src/module.ts\<close> works on three kinds of data: the
  JavaScript values found as members of a module instance and passed as arguments, the
  module instances themselves, and the nodes of the document.

  A JavaScript value is one of the primitive kinds, a function, an object or an array.
  Functions and objects are references: the natural number is the identity of the function or
  object. Numbers are modelled by \<open>int\<close> (module identities are integers).
\<close>

datatype jsval =
    Undefined
  | Null
  | Boolean bool
  | Number int
  | String string
  | Function nat
  | Object nat
  | Array "jsval list"

text \<open>The truth value JavaScript assigns to a value in a condition (\<open>if (v)\<close>, \<open>v && ...\<close>).\<close>

fun truthy :: "jsval \<Rightarrow> bool" where
  "truthy Undefined = False"
| "truthy Null = False"
| "truthy (Boolean b) = b"
| "truthy (Number n) = (n \<noteq> 0)"
| "truthy (String s) = (s \<noteq> [])"
| "truthy (Function f) = True"
| "truthy (Object r) = True"
| "truthy (Array vs) = True"

text \<open>
  Modelled from the spec: \<open>isFunction\<close> (\<^verbatim>\<open>utils/is_function\<close>, imported by the class and
  not part of the source tree) is true exactly when the value's runtime kind is callable,
  and false for every other kind, absent values included.
\<close>

fun isFunction :: "jsval \<Rightarrow> bool" where
  "isFunction (Function f) = True"
| "isFunction _ = False"

text \<open>
  A module instance is an object of the heap. The record holds the four fields the constructor
  stores (\<open>ID\<close>, \<open>name\<close>, \<open>element\<close>, a node of the document or \<open>null\<close>, and \<open>modules\<close>, the
  list every instance shares, as the references of its entries) and, in \<open>members\<close>, every other
  named member that a property read on the object finds. The entries of \<open>modules\<close>
  (\<open>ModuleCompiled\<close>) are objects of the same heap; of an entry the class reads only \<open>ID\<close>,
  \<open>name\<close> and the named members.
\<close>

record module =
  ID :: int
  name :: string
  element :: "nat option"
  modules :: "nat list"
  members :: "(string \<times> jsval) list"

text \<open>The property read \<open>module[methodName]\<close>; a missing property reads as \<open>undefined\<close>.\<close>

definition get_member :: "module \<Rightarrow> string \<Rightarrow> jsval" where
  "get_member m key =
     (if key = ''ID'' then Number (ID m)
      else if key = ''name'' then String (name m)
      else if key = ''element'' then (case element m of None \<Rightarrow> Null | Some el \<Rightarrow> Object el)
      else if key = ''modules'' then Array (map Object (modules m))
      else (case map_of (members m) key of None \<Rightarrow> Undefined | Some v \<Rightarrow> v))"

section \<open>The document\<close>

text \<open>
  The document is a store of nodes addressed by reference. A node has a kind (of the nodes that
  can be a parent: an element, a document, or a document fragment, which a shadow root is
  too), a parent link (\<open>parentNode\<close>, \<open>null\<close> at the top of a tree) and a list of attributes
  (name and value). \<open>document\<close> is the global document object; \<open>html\<close> tells whether it is an
  HTML document, where the names of attributes are in lower case.
\<close>

datatype node_kind = ElementNode | DocumentNode | DocumentFragmentNode

record dom_node =
  kind :: node_kind
  parentNode :: "nat option"
  attributes :: "(string \<times> string) list"

record dom =
  document :: nat
  html :: bool
  node :: "nat \<Rightarrow> dom_node"

text \<open>
  What the class and the platform throw. Modelled from the spec: the two exception classes of
  the library (\<^verbatim>\<open>exceptions/*.exception\<close>, imported by the class and not part of the source
  tree) are data-carrying failure values; \<open>ModuleNotFound\<close> carries the type key and
  \<open>ModuleIdNotFound\<close> the identity. \<open>TypeError\<close> is the call of a method that the object does
  not have; \<open>DOMException\<close> carries its name (\<open>SyntaxError\<close>, \<open>InvalidCharacterError\<close>);
  \<open>ThrownByMember\<close> is a value thrown by the body of an invoked member.
\<close>

datatype exception =
    ModularModuleNotFoundException string
  | ModularModuleIdNotFoundException int
  | TypeError
  | DOMException string
  | ThrownByMember jsval

text \<open>ASCII lower case of a character: the letters \<open>A\<close> to \<open>Z\<close> (65 to 90) get the bit 32.\<close>

fun ascii_lowercase :: "char \<Rightarrow> char" where
  "ascii_lowercase (Char b0 b1 b2 b3 b4 b5 b6 b7) =
     (let n = (of_char (Char b0 b1 b2 b3 b4 b5 b6 b7) :: nat) in
      if 65 \<le> n \<and> n \<le> 90 then Char b0 b1 b2 b3 b4 True b6 b7
      else Char b0 b1 b2 b3 b4 b5 b6 b7)"

text \<open>
  The name under which an element keeps and finds an attribute: in an HTML document
  \<open>getAttribute\<close> and \<open>setAttribute\<close> put the qualified name in ASCII lower case first.
\<close>

definition attribute_name :: "dom \<Rightarrow> string \<Rightarrow> string" where
  "attribute_name D qualifiedName =
     (if html D then map ascii_lowercase qualifiedName else qualifiedName)"

definition attribute_value :: "dom \<Rightarrow> nat \<Rightarrow> string \<Rightarrow> string option" where
  "attribute_value D el qualifiedName =
     map_of (attributes (node D el)) (attribute_name D qualifiedName)"

text \<open>
  The part of the platform that is a parameter of the model: \<open>matches\<close> tells whether an
  element satisfies a selector string, or throws (a \<open>SyntaxError\<close> on a string that is not a
  selector); \<open>querySelectorAll\<close> lists the descendants of a node that satisfy a selector, in
  document order; \<open>valid_attribute_name\<close> tells which qualified names \<open>setAttribute\<close>
  accepts.
\<close>

record platform =
  matches :: "dom \<Rightarrow> nat \<Rightarrow> string \<Rightarrow> exception + bool"
  querySelectorAll :: "dom \<Rightarrow> nat \<Rightarrow> string \<Rightarrow> nat list"
  valid_attribute_name :: "string \<Rightarrow> bool"

text \<open>
  \<open>element.getAttribute(qualifiedName)\<close> and \<open>element.setAttribute(qualifiedName, value)\<close>.
  Only an element has the two methods: on another node the call is a \<open>TypeError\<close>.
  \<open>setAttribute\<close> throws an \<open>InvalidCharacterError\<close> on a name that is not valid; otherwise
  it replaces the value of the attribute when it is present and appends the attribute when it
  is not.
\<close>

definition getAttribute :: "dom \<Rightarrow> nat \<Rightarrow> string \<Rightarrow> exception + string option" where
  "getAttribute D el qualifiedName =
     (if kind (node D el) = ElementNode then Inr (attribute_value D el qualifiedName)
      else Inl TypeError)"

definition setAttribute :: "platform \<Rightarrow> dom \<Rightarrow> nat \<Rightarrow> string \<Rightarrow> string \<Rightarrow> exception + dom" where
  "setAttribute P D el qualifiedName v =
     (if kind (node D el) \<noteq> ElementNode then Inl TypeError
      else if \<not> valid_attribute_name P qualifiedName
      then Inl (DOMException ''InvalidCharacterError'')
      else Inr (D\<lparr>node := (node D)
                  (el := (node D el)\<lparr>attributes :=
                     AList.update (attribute_name D qualifiedName) v (attributes (node D el))\<rparr>)\<rparr>))"

text \<open>
  \<open>node.matches(selectors)\<close>: only an element has the method, so that on a document or a
  document fragment the call is a \<open>TypeError\<close>.
\<close>

definition node_matches :: "platform \<Rightarrow> dom \<Rightarrow> nat \<Rightarrow> string \<Rightarrow> exception + bool" where
  "node_matches P D n selectors =
     (if kind (node D n) = ElementNode then matches P D n selectors else Inl TypeError)"

section \<open>The world and the invoked members\<close>

text \<open>
  The world is the heap of module instances and the document. The body of a member that
  \<open>call\<close> and \<open>callById\<close> invoke is code of a subclass: it is a parameter of the model, a
  function from the identity of the function, the object passed as \<open>this\<close>, the arguments and
  the world to the outcome of the invocation. A body can return, leaving a world of its
  choice (it can assign the fields of any instance, those of the object passed as \<open>this\<close>
  included, and change the document), throw a value, or not return at all.
\<close>

record world =
  heap :: "nat \<Rightarrow> module"
  doc :: dom

datatype 'e outcome = Returned world | Threw 'e world | Hung

type_synonym bodies = "nat \<Rightarrow> nat \<Rightarrow> jsval list \<Rightarrow> world \<Rightarrow> jsval outcome"

text \<open>
  Besides the outcome, the model keeps a trace of the invocations the class makes: the object
  the member was read from, the function invoked, the object passed to the invocation as its
  \<open>this\<close>, and the arguments passed to it.
\<close>

datatype event = Invocation (owner: nat) (callee: nat) (thisArg: nat) (arguments: "jsval list")

type_synonym trace = "event list"

section \<open>Cross-module invocation\<close>

text \<open>
  \<open>f.apply(thisArg, ...args)\<close>: the spread passes the elements of the rest array as the
  further actual parameters of \<open>apply\<close>, which takes its second parameter as the array of
  arguments and ignores the others; with no second parameter the function gets no argument.
\<close>

fun apply_arguments :: "jsval list list \<Rightarrow> jsval list" where
  "apply_arguments [] = []"
| "apply_arguments (argArray # _) = argArray"

text \<open>An exception of the body of a member leaves the invocation as it is thrown.\<close>

fun member_outcome :: "jsval outcome \<Rightarrow> exception outcome" where
  "member_outcome (Returned w) = Returned w"
| "member_outcome (Threw v w) = Threw (ThrownByMember v) w"
| "member_outcome Hung = Hung"

text \<open>
  \<open>#callMethod(module, methodName, ...args)\<close>: \<open>args\<close> is the rest array, whose elements are
  the actual parameters after the second one. Both call sites pass the caller's own argument
  array as the only such parameter. \<open>this\<close> and \<open>m\<close> are the references of the calling
  instance and of the target; the member is read from the target as it is in the heap now.
\<close>

definition callMethod ::
  "bodies \<Rightarrow> nat \<Rightarrow> nat \<Rightarrow> string \<Rightarrow> jsval list list \<Rightarrow> world \<Rightarrow> trace \<Rightarrow>
     exception outcome \<times> trace" where
  "callMethod B this m methodName args w tr =
     (let moduleMethod = get_member (heap w m) methodName in
      if truthy moduleMethod \<and> isFunction moduleMethod
      then (case moduleMethod of
              Function f \<Rightarrow>
                (member_outcome (B f this (apply_arguments args) w),
                 tr @ [Invocation m f this (apply_arguments args)])
            | _ \<Rightarrow> (Returned w, tr))
      else (Returned w, tr))"



text \<open>\<open>callById(id, methodName, ...args)\<close>; \<open>Array.prototype.find\<close> is \<^const>\<open>find\<close>.\<close>

definition callById ::
  "bodies \<Rightarrow> nat \<Rightarrow> int \<Rightarrow> string \<Rightarrow> jsval list \<Rightarrow> world \<Rightarrow> trace \<Rightarrow>
     exception outcome \<times> trace" where
  "callById B this id' methodName args w tr =
     (case find (\<lambda>m. ID (heap w m) = id') (modules (heap w this)) of
        Some m \<Rightarrow> callMethod B this m methodName [args] w tr
      | None \<Rightarrow> (Threw (ModularModuleIdNotFoundException id') w, tr))"

section \<open>Scoped lookup, ancestor lookup and the data attributes\<close>

text \<open>
  \<open>q\<close>, \<open>parent\<close>, \<open>getData\<close> and \<open>setData\<close> run no code of a subclass: they take the
  instance as the record of its fields when the operation starts.
\<close>




text \<open>
  The loop of \<open>parent\<close>: \<open>while (parent && parent !== document)\<close>. The outer \<open>option\<close> is the
  loop not returning; inside it is the exception thrown or the result, \<open>None\<close> for
  \<open>undefined\<close>.
\<close>

partial_function (option) parent_loop ::
  "platform \<Rightarrow> dom \<Rightarrow> string \<Rightarrow> nat option \<Rightarrow> (exception + nat option) option" where
  "parent_loop P D data parent =
     (if parent \<noteq> None \<and> parent \<noteq> Some (document D)
      then (case node_matches P D (the parent) data of
              Inl e \<Rightarrow> Some (Inl e)
            | Inr b \<Rightarrow>
                if b then Some (Inr parent)
                else parent_loop P D data (parentNode (node D (the parent))))
      else Some (Inr None))"

text \<open>The selector that \<open>parent\<close> builds: \<^verbatim>\<open>[data-${this.name}="${query}"]\<close>.\<close>

definition parent_data :: "module \<Rightarrow> string \<Rightarrow> string" where
  "parent_data this query =
     ''[data-'' @ name this @ ''='' @ [CHR 0x22] @ query @ [CHR 0x22] @ '']''"

definition parent ::
  "platform \<Rightarrow> dom \<Rightarrow> module \<Rightarrow> string \<Rightarrow> nat \<Rightarrow> (exception + nat option) option" where
  "parent P D this query target =
     parent_loop P D (parent_data this query) (parentNode (node D target))"

text \<open>
  \<open>getData(qualifiedName, target)\<close> and \<open>setData(qualifiedName, value, target)\<close>;
  \<open>target || this.element\<close> is the target when one is given (an element is truthy) and the
  element of the instance otherwise. \<open>setData\<close> returns the document after the write.
\<close>

definition getData :: "dom \<Rightarrow> module \<Rightarrow> string \<Rightarrow> nat option \<Rightarrow> exception + string option" where
  "getData D this qualifiedName target =
     (let el = (case target of Some t \<Rightarrow> Some t | None \<Rightarrow> element this) in
      case el of
        Some e \<Rightarrow> getAttribute D e (''data-'' @ qualifiedName)
      | None \<Rightarrow> Inr None)"

definition setData ::
  "platform \<Rightarrow> dom \<Rightarrow> module \<Rightarrow> string \<Rightarrow> string \<Rightarrow> nat option \<Rightarrow> exception + dom" where
  "setData P D this qualifiedName v target =
     (let el = (case target of Some t \<Rightarrow> Some t | None \<Rightarrow> element this) in
      case el of
        Some e \<Rightarrow> setAttribute P D e (''data-'' @ qualifiedName) v
      | None \<Rightarrow> Inr D)"

section \<open>Construction and sequences of operations\<close>

text \<open>
  The constructor stores the four fields of the options. The members that the class of the
  new object gives it are a parameter.
\<close>

record module_options =
  opt_ID :: int
  opt_name :: string
  opt_element :: "nat option"
  opt_modules :: "nat list"

definition constructor :: "(string \<times> jsval) list \<Rightarrow> module_options \<Rightarrow> module" where
  "constructor ms opts =
     \<lparr>ID = opt_ID opts, name = opt_name opts, element = opt_element opts,
      modules = opt_modules opts, members = ms\<rparr>"









section \<open>Vocabulary of the properties\<close>

text \<open>
  The events one call of the invocation helper is expected to add for an entry: one
  invocation when the member read from the entry is a function, none otherwise.
\<close>

definition expected_invocation :: "world \<Rightarrow> nat \<Rightarrow> nat \<Rightarrow> string \<Rightarrow> jsval list \<Rightarrow> trace" where
  "expected_invocation w this m methodName args =
     (case get_member (heap w m) methodName of
        Function f \<Rightarrow> [Invocation m f this args]
      | _ \<Rightarrow> [])"




text \<open>
  \<open>strict_ancestors D n chain\<close>: \<open>chain\<close> lists the strict ancestors of \<open>n\<close> below the document
  root, nearest first; it ends where the parent link is \<open>null\<close> or the document.
\<close>

fun strict_ancestors :: "dom \<Rightarrow> nat \<Rightarrow> nat list \<Rightarrow> bool" where
  "strict_ancestors D n [] =
     (parentNode (node D n) = None \<or> parentNode (node D n) = Some (document D))"
| "strict_ancestors D n (p # ps) =
     (parentNode (node D n) = Some p \<and> p \<noteq> document D \<and> strict_ancestors D p ps)"

text \<open>
  The selector of CSS for the elements that carry the attribute \<open>a\<close> with the value \<open>v\<close>,
  \<^verbatim>\<open>[a="v"]\<close>, is this string when \<open>a\<close> is an identifier and \<open>v\<close> has no character that
  ends or escapes inside a string of CSS. \<open>ident_char\<close> are the letters, the digits, the
  hyphen and the underscore; \<open>string_char\<close> is every character but the double quote, the
  backslash, the line breaks and the null character.
\<close>

definition attribute_selector :: "string \<Rightarrow> string \<Rightarrow> string" where
  "attribute_selector a v = ''['' @ a @ ''='' @ [CHR 0x22] @ v @ [CHR 0x22] @ '']''"

definition ident_char :: "char \<Rightarrow> bool" where
  "ident_char c =
     (let n = (of_char c :: nat) in
      (48 \<le> n \<and> n \<le> 57) \<or> (65 \<le> n \<and> n \<le> 90) \<or> (97 \<le> n \<and> n \<le> 122) \<or> n = 45 \<or> n = 95)"

definition string_char :: "char \<Rightarrow> bool" where
  "string_char c =
     (let n = (of_char c :: nat) in n \<noteq> 0 \<and> n \<noteq> 10 \<and> n \<noteq> 12 \<and> n \<noteq> 13 \<and> n \<noteq> 34 \<and> n \<noteq> 92)"

text \<open>
  A selector engine that gives the attribute selectors of the data attributes their meaning:
  on an element, \<^verbatim>\<open>[data-k="v"]\<close> with \<open>k\<close> of identifier characters and \<open>v\<close> of string
  characters is accepted, and holds exactly when the element carries the attribute
  \<open>data-k\<close> with the value \<open>v\<close>.
\<close>

definition conforming :: "platform \<Rightarrow> dom \<Rightarrow> bool" where
  "conforming P D =
     (\<forall>x k v. kind (node D x) = ElementNode \<and> list_all ident_char k \<and> list_all string_char v \<longrightarrow>
        matches P D x (attribute_selector (''data-'' @ k) v) =
          Inr (attribute_value D x (''data-'' @ k) = Some v))"

section \<open>A small world\<close>

text \<open>
  Two accordions (the objects 10 and 11) and two menus (12 and 13) that share the identity 7;
  every instance has the same list of entries. The first accordion is made by the
  constructor and bound to the element 3.
\<close>

definition siblings :: "nat list" where
  "siblings = [10, 12, 11, 13]"

definition caller_options :: module_options where
  "caller_options =
     \<lparr>opt_ID = 1, opt_name = ''accordion'', opt_element = Some 3, opt_modules = siblings\<rparr>"

definition accordion1 :: module where
  "accordion1 = constructor [(''open'', Function 100), (''toggle'', Function 105)] caller_options"

definition accordion2 :: module where
  "accordion2 = \<lparr>ID = 2, name = ''accordion'', element = Some 4, modules = siblings,
     members = [(''open'', Function 101), (''toggle'', Function 106), (''title'', String ''faq'')]\<rparr>"

definition menu1 :: module where
  "menu1 = \<lparr>ID = 7, name = ''menu'', element = None, modules = siblings,
     members = [(''close'', Function 102), (''reset'', Function 104)]\<rparr>"

definition menu2 :: module where
  "menu2 = \<lparr>ID = 7, name = ''menu'', element = None, modules = siblings,
     members = [(''close'', Function 103)]\<rparr>"

text \<open>An instance whose name has a character that is not one of an identifier.\<close>

definition dotted :: module where
  "dotted = \<lparr>ID = 3, name = ''a.b'', element = None, modules = siblings, members = []\<rparr>"

text \<open>
  The document: the root 0 and the elements 1 to 4, each the parent of the next; a detached
  document fragment 5 with the element 6 in it; the element 7 under 1 with the element 8 in
  it.
\<close>

definition example_dom :: dom where
  "example_dom = \<lparr>document = 0, html = True,
     node = (\<lambda>n.
       if n = 0 then \<lparr>kind = DocumentNode, parentNode = None, attributes = []\<rparr>
       else if n = 1 then \<lparr>kind = ElementNode, parentNode = Some 0, attributes = []\<rparr>
       else if n = 2 then \<lparr>kind = ElementNode, parentNode = Some 1,
                            attributes = [(''data-accordion'', ''item'')]\<rparr>
       else if n = 3 then \<lparr>kind = ElementNode, parentNode = Some 2,
                            attributes = [(''data-active'', ''true'')]\<rparr>
       else if n = 4 then \<lparr>kind = ElementNode, parentNode = Some 3, attributes = []\<rparr>
       else if n = 5 then \<lparr>kind = DocumentFragmentNode, parentNode = None, attributes = []\<rparr>
       else if n = 6 then \<lparr>kind = ElementNode, parentNode = Some 5, attributes = []\<rparr>
       else if n = 7 then \<lparr>kind = ElementNode, parentNode = Some 1,
                            attributes = [(''data-a.b'', ''item'')]\<rparr>
       else \<lparr>kind = ElementNode, parentNode = Some 7, attributes = []\<rparr>)\<rparr>"

definition example_world :: world where
  "example_world = \<lparr>
     heap = (\<lambda>a. if a = 10 then accordion1 else if a = 11 then accordion2
                 else if a = 12 then menu1 else if a = 13 then menu2 else dotted),
     doc = example_dom\<rparr>"

text \<open>
  The bodies: the function 105 (\<open>toggle\<close> of the first accordion) throws, every other
  function returns and changes nothing. In \<open>resetting_bodies\<close> the function 104 (\<open>reset\<close> of
  the first menu) is \<open>this.element = null\<close>.
\<close>

definition example_bodies :: bodies where
  "example_bodies f this args w = (if f = 105 then Threw (String ''boom'') w else Returned w)"


text \<open>
  A small selector engine: it reads a string as \<^verbatim>\<open>[data-k="v"]\<close> with \<open>k\<close> of identifier
  characters and \<open>v\<close> of string characters, and throws a \<open>SyntaxError\<close> on any other
  string. The names \<open>setAttribute\<close> accepts are those without white space, null, slash,
  equals sign and greater-than sign.
\<close>

definition parse_data_selector :: "string \<Rightarrow> (string \<times> string) option" where
  "parse_data_selector s =
     (if take 6 s = ''[data-''
      then (let k = takeWhile (\<lambda>c. c \<noteq> CHR ''='') (drop 6 s);
                r = dropWhile (\<lambda>c. c \<noteq> CHR ''='') (drop 6 s);
                v = takeWhile (\<lambda>c. c \<noteq> CHR 0x22) (drop 2 r);
                e = dropWhile (\<lambda>c. c \<noteq> CHR 0x22) (drop 2 r)
            in if take 2 r = [CHR ''='', CHR 0x22] \<and> e = [CHR 0x22, CHR '']'']
                  \<and> list_all ident_char k \<and> list_all string_char v
               then Some (''data-'' @ k, v) else None)
      else None)"

definition example_valid_name :: "string \<Rightarrow> bool" where
  "example_valid_name n =
     (n \<noteq> [] \<and> list_all (\<lambda>c. (of_char c :: nat) \<notin> {0, 9, 10, 12, 13, 32, 47, 61, 62}) n)"

definition example_platform :: platform where
  "example_platform = \<lparr>
     matches = (\<lambda>D n s. case parse_data_selector s of
                  None \<Rightarrow> Inl (DOMException ''SyntaxError'')
                | Some (a, v) \<Rightarrow> Inr (attribute_value D n a = Some v)),
     querySelectorAll = (\<lambda>D r s. if r = 1 then [2, 3] else if r = 2 then [3] else []),
     valid_attribute_name = example_valid_name\<rparr>"








section \<open>Lemmas on the invocation helper and the loop\<close>

lemmas example_defs = siblings_def caller_options_def accordion1_def accordion2_def menu1_def
  menu2_def dotted_def constructor_def example_world_def

lemma callMethod_site:
  "callMethod B this m methodName [args] w tr =
     (case get_member (heap w m) methodName of
        Function f \<Rightarrow> (member_outcome (B f this args w), tr @ [Invocation m f this args])
      | _ \<Rightarrow> (Returned w, tr))"
  by (cases "get_member (heap w m) methodName") (simp_all add: callMethod_def)

lemma callMethod_trace:
  "snd (callMethod B this m methodName [args] w tr) = tr @ expected_invocation w this m methodName args"
  by (cases "get_member (heap w m) methodName")
    (simp_all add: callMethod_def expected_invocation_def)







lemma find_first:
  assumes "xs = pre @ m # post" and "\<forall>x\<in>set pre. \<not> P x" and "P m"
  shows "find P xs = Some m"
  using assms by (induction pre arbitrary: xs) simp_all

section \<open>Lemmas on the document\<close>

lemma parent_loop_chain:
  assumes "strict_ancestors D n chain"
    and "\<forall>x\<in>set chain. node_matches P D x data = Inr (A x)"
  shows "parent_loop P D data (parentNode (node D n)) = Some (Inr (find A chain))"
  using assms
proof (induction chain arbitrary: n)
  case Nil
  then show ?case by (subst parent_loop.simps) auto
next
  case (Cons p ps)
  then show ?case by (subst parent_loop.simps) auto
qed

lemma parent_data_selector:
  "parent_data this query = attribute_selector (''data-'' @ name this) query"
  by (simp add: parent_data_def attribute_selector_def)

lemma parse_attribute_selector:
  assumes "list_all ident_char k" and "list_all string_char v"
  shows "parse_data_selector (attribute_selector (''data-'' @ k) v) = Some (''data-'' @ k, v)"
proof -
  have k: "\<forall>c\<in>set k. c \<noteq> CHR ''=''"
    using assms(1) by (auto simp: list_all_iff ident_char_def)
  have v: "\<forall>c\<in>set v. c \<noteq> CHR 0x22"
    using assms(2) by (auto simp: list_all_iff string_char_def)
  have s: "attribute_selector (''data-'' @ k) v =
      ''[data-'' @ k @ CHR ''='' # CHR 0x22 # v @ [CHR 0x22, CHR '']'']"
    by (simp add: attribute_selector_def)
  have t1: "takeWhile (\<lambda>c. c \<noteq> CHR ''='') (k @ CHR ''='' # r) = k" for r
    using k by (simp add: takeWhile_append2)
  have d1: "dropWhile (\<lambda>c. c \<noteq> CHR ''='') (k @ CHR ''='' # r) = CHR ''='' # r" for r
    using k by (simp add: dropWhile_append2)
  have t2: "takeWhile (\<lambda>c. c \<noteq> CHR 0x22) (v @ CHR 0x22 # r) = v" for r
    using v by (simp add: takeWhile_append2)
  have d2: "dropWhile (\<lambda>c. c \<noteq> CHR 0x22) (v @ CHR 0x22 # r) = CHR 0x22 # r" for r
    using v by (simp add: dropWhile_append2)
  show ?thesis
    unfolding s parse_data_selector_def using assms by (simp add: t1 d1 t2 d2)
qed

lemma example_conforming: "conforming example_platform D"
proof -
  have "matches example_platform D x (attribute_selector (''data-'' @ k) v) =
      Inr (attribute_value D x (''data-'' @ k) = Some v)"
    if "list_all ident_char k" "list_all string_char v" for x k v
    using parse_attribute_selector [OF that] by (simp add: example_platform_def)
  then show ?thesis
    unfolding conforming_def by blast
qed

lemma setAttribute_value:
  assumes "setAttribute P D el n v = Inr D'"
  shows "attribute_value D' el n = Some v \<and> kind (node D' el) = ElementNode"
  using assms
  by (auto simp: setAttribute_def attribute_value_def attribute_name_def update_conv'
      split: if_splits)

section \<open>Lemmas on the fields of an instance\<close>








section \<open>The small world, evaluated\<close>



lemma example_chain: "strict_ancestors example_dom 4 [3, 2, 1]"
  by (simp add: example_dom_def)

lemma example_elements: "\<forall>n\<in>set [3, 2, 1]. kind (node example_dom n) = ElementNode"
  by (simp add: example_dom_def)

lemma example_plain:
  "list_all ident_char (name accordion1)" "list_all string_char ''item''"
  by (simp_all add: ident_char_def string_char_def example_defs)








section \<open>Cross-module invocation by name\<close>






text \<open>
  Claim C3. The invocation helper, called as \<open>call\<close> and \<open>callById\<close> call it: when the member
  read from the target is a function, that function is invoked with the calling instance
  passed as its \<open>this\<close> and with the argument list of the caller, and the outcome is that of
  its body; when the member is absent or is not a function, nothing happens and nothing is
  thrown.
\<close>

theorem callMethod_invocation:
  "(get_member (heap w m) methodName = Function f \<longrightarrow>
      callMethod B this m methodName [args] w tr =
        (member_outcome (B f this args w), tr @ [Invocation m f this args])) \<and>
   (\<not> isFunction (get_member (heap w m) methodName) \<longrightarrow>
      callMethod B this m methodName [args] w tr = (Returned w, tr))"
  by (cases "get_member (heap w m) methodName") (simp_all add: callMethod_def)

theorem callMethod_invocation_witness:
  "get_member (heap example_world 12) ''close'' = Function 102 \<and>
   callMethod example_bodies 10 12 ''close'' [[Number 5]] example_world [] =
     (Returned example_world, [Invocation 12 102 10 [Number 5]]) \<and>
   \<not> isFunction (get_member (heap example_world 11) ''title'') \<and>
   callMethod example_bodies 10 11 ''title'' [[]] example_world [] = (Returned example_world, []) \<and>
   \<not> isFunction (get_member (heap example_world 11) ''close'') \<and>
   callMethod example_bodies 10 11 ''close'' [[]] example_world [] = (Returned example_world, [])"
proof -
  have h1: "get_member (heap example_world 12) ''close'' = Function 102"
    by (simp add: get_member_def example_defs)
  have h2: "\<not> isFunction (get_member (heap example_world 11) ''title'')"
    by (simp add: get_member_def example_defs)
  have h3: "\<not> isFunction (get_member (heap example_world 11) ''close'')"
    by (simp add: get_member_def example_defs)
  from h1 callMethod_invocation [of example_world 12 "''close''" 102 example_bodies 10 "[Number 5]" "[]"]
  have "callMethod example_bodies 10 12 ''close'' [[Number 5]] example_world [] =
     (member_outcome (example_bodies 102 10 [Number 5] example_world), [] @ [Invocation 12 102 10 [Number 5]])"
    by blast
  then have c1: "callMethod example_bodies 10 12 ''close'' [[Number 5]] example_world [] =
     (Returned example_world, [Invocation 12 102 10 [Number 5]])"
    by (simp add: example_bodies_def)
  from h2 callMethod_invocation [of example_world 11 "''title''" 0 example_bodies 10 "[]" "[]"]
  have c2: "callMethod example_bodies 10 11 ''title'' [[]] example_world [] = (Returned example_world, [])"
    by blast
  from h3 callMethod_invocation [of example_world 11 "''close''" 0 example_bodies 10 "[]" "[]"]
  have c3: "callMethod example_bodies 10 11 ''close'' [[]] example_world [] = (Returned example_world, [])"
    by blast
  from h1 h2 h3 c1 c2 c3 show ?thesis by blast
qed

section \<open>Cross-module invocation by identity\<close>

text \<open>
  Claim C4. \<open>callById\<close> invokes the named member of the first entry of \<open>modules\<close> whose
  \<open>ID\<close> equals the given identity, when there is one: one invocation of the function that
  the member is, with the calling instance as \<open>this\<close> and the argument list, or nothing when
  the member is not a function. When no entry has that identity it throws
  \<open>ModularModuleIdNotFoundException\<close> carrying the identity, and the world and the trace are
  unchanged: nothing was invoked.
\<close>

theorem callById_first_or_error:
  "((modules (heap w this) = pre @ m # post \<and> (\<forall>x\<in>set pre. ID (heap w x) \<noteq> i)
       \<and> ID (heap w m) = i) \<longrightarrow>
      (\<forall>f. get_member (heap w m) methodName = Function f \<longrightarrow>
         callById B this i methodName args w tr =
           (member_outcome (B f this args w), tr @ [Invocation m f this args])) \<and>
      (\<not> isFunction (get_member (heap w m) methodName) \<longrightarrow>
         callById B this i methodName args w tr = (Returned w, tr))) \<and>
   ((\<forall>x\<in>set (modules (heap w this)). ID (heap w x) \<noteq> i) \<longrightarrow>
      callById B this i methodName args w tr = (Threw (ModularModuleIdNotFoundException i) w, tr))"
proof (intro conjI impI allI)
  assume a: "modules (heap w this) = pre @ m # post \<and> (\<forall>x\<in>set pre. ID (heap w x) \<noteq> i)
       \<and> ID (heap w m) = i"
  then have found: "find (\<lambda>x. ID (heap w x) = i) (modules (heap w this)) = Some m"
    by (intro find_first[where pre=pre and post=post]) simp_all
  show "callById B this i methodName args w tr =
           (member_outcome (B f this args w), tr @ [Invocation m f this args])"
    if "get_member (heap w m) methodName = Function f" for f
    using that found by (simp add: callById_def callMethod_site)
  show "callById B this i methodName args w tr = (Returned w, tr)"
    if "\<not> isFunction (get_member (heap w m) methodName)"
    using that found
    by (cases "get_member (heap w m) methodName") (simp_all add: callById_def callMethod_site)
next
  assume "\<forall>x\<in>set (modules (heap w this)). ID (heap w x) \<noteq> i"
  then have "find (\<lambda>x. ID (heap w x) = i) (modules (heap w this)) = None"
    by (simp add: find_None_iff)
  then show "callById B this i methodName args w tr =
      (Threw (ModularModuleIdNotFoundException i) w, tr)"
    by (simp add: callById_def)
qed

theorem callById_first_or_error_witness:
  "modules (heap example_world 10) = [10] @ 12 # [11, 13] \<and>
   list_all (\<lambda>x. ID (heap example_world x) \<noteq> 7) [10] \<and> ID (heap example_world 12) = 7 \<and>
   get_member (heap example_world 12) ''close'' = Function 102 \<and>
   callById example_bodies 10 7 ''close'' [] example_world [] =
     (Returned example_world, [Invocation 12 102 10 []]) \<and>
   \<not> isFunction (get_member (heap example_world 12) ''open'') \<and>
   callById example_bodies 10 7 ''open'' [] example_world [] = (Returned example_world, []) \<and>
   list_all (\<lambda>x. ID (heap example_world x) \<noteq> 42) (modules (heap example_world 10)) \<and>
   callById example_bodies 10 42 ''anything'' [] example_world [] =
     (Threw (ModularModuleIdNotFoundException 42) example_world, [])"
proof -
  have h1: "modules (heap example_world 10) = [10] @ 12 # [11, 13] \<and>
      (\<forall>x\<in>set [10]. ID (heap example_world x) \<noteq> 7) \<and> ID (heap example_world 12) = 7"
    by (simp add: example_defs)
  have g1: "get_member (heap example_world 12) ''close'' = Function 102"
    and g2: "\<not> isFunction (get_member (heap example_world 12) ''open'')"
    by (simp_all add: get_member_def example_defs)
  have h2: "\<forall>x\<in>set (modules (heap example_world 10)). ID (heap example_world x) \<noteq> 42"
    by (simp add: example_defs)
  from h1 g1 callById_first_or_error [of example_world 10 "[10]" 12 "[11, 13]" 7 "''close''"
      example_bodies "[]" "[]"]
  have "callById example_bodies 10 7 ''close'' [] example_world [] =
      (member_outcome (example_bodies 102 10 [] example_world), [] @ [Invocation 12 102 10 []])"
    by blast
  then have c1: "callById example_bodies 10 7 ''close'' [] example_world [] =
     (Returned example_world, [Invocation 12 102 10 []])"
    by (simp add: example_bodies_def)
  from h1 g2 callById_first_or_error [of example_world 10 "[10]" 12 "[11, 13]" 7 "''open''"
      example_bodies "[]" "[]"]
  have c2: "callById example_bodies 10 7 ''open'' [] example_world [] = (Returned example_world, [])"
    by blast
  from h2 callById_first_or_error [of example_world 10 "[]" 12 "[]" 42 "''anything''"
      example_bodies "[]" "[]"]
  have c3: "callById example_bodies 10 42 ''anything'' [] example_world [] =
     (Threw (ModularModuleIdNotFoundException 42) example_world, [])"
    by blast
  from h1 h2 g1 g2 c1 c2 c3 show ?thesis by (simp add: list_all_iff)
qed

section \<open>Scoped lookup\<close>


section \<open>Ancestor lookup\<close>

text \<open>
  Claim C6, as amended. For an instance whose name is made of identifier characters, a query
  made of string characters, a target whose strict ancestors below the document root are
  \<open>chain\<close>, all of them elements, and a selector engine that gives the attribute selectors
  of the data attributes their meaning: \<open>parent\<close> returns, and its result is the first node
  of \<open>chain\<close>, nearest first, that carries the attribute \<open>data-<name>\<close> with the value
  \<open>query\<close>, and \<open>undefined\<close> when none does.
\<close>

theorem parent_nearest:
  assumes "strict_ancestors D target chain"
    and "\<forall>n\<in>set chain. kind (node D n) = ElementNode"
    and "conforming P D"
    and "list_all ident_char (name this)"
    and "list_all string_char query"
  shows "parent P D this query target =
           Some (Inr (find (\<lambda>n. attribute_value D n (''data-'' @ name this) = Some query) chain))"
proof -
  from assms(2-5)
  have "\<forall>n\<in>set chain. node_matches P D n (parent_data this query) =
      Inr (attribute_value D n (''data-'' @ name this) = Some query)"
    by (simp add: node_matches_def parent_data_selector conforming_def)
  with assms(1) show ?thesis
    unfolding parent_def by (rule parent_loop_chain)
qed

theorem parent_nearest_witness:
  "strict_ancestors example_dom 4 [3, 2, 1] \<and>
   list_all (\<lambda>n. kind (node example_dom n) = ElementNode) [3, 2, 1] \<and>
   conforming example_platform example_dom \<and>
   list_all ident_char (name accordion1) \<and> list_all string_char ''item'' \<and>
   parent example_platform example_dom accordion1 ''item'' 4 = Some (Inr (Some 2))"
proof -
  have "parent example_platform example_dom accordion1 ''item'' 4 =
      Some (Inr (find (\<lambda>n. attribute_value example_dom n (''data-'' @ name accordion1) = Some ''item'')
        [3, 2, 1]))"
    using parent_nearest [OF example_chain example_elements example_conforming example_plain] .
  also have "\<dots> = Some (Inr (Some 2))"
    by (simp add: attribute_value_def attribute_name_def example_dom_def example_defs)
  finally show ?thesis
    using example_chain example_elements example_conforming example_plain
    by (simp add: list_all_iff)
qed

text \<open>
  As first stated, for every type key, query and target, the claim fails: an ancestor that is
  a document fragment has no \<open>matches\<close>, and a name with a dot makes a string that is not a
  selector, although the parent of the target carries the attribute.
\<close>

theorem parent_nearest_counterexample:
  "strict_ancestors example_dom 6 [5] \<and>
   attribute_value example_dom 5 (''data-'' @ name accordion1) \<noteq> Some ''item'' \<and>
   parent example_platform example_dom accordion1 ''item'' 6 = Some (Inl TypeError) \<and>
   strict_ancestors example_dom 8 [7, 1] \<and>
   attribute_value example_dom 7 (''data-'' @ name dotted) = Some ''item'' \<and>
   parent example_platform example_dom dotted ''item'' 8 = Some (Inl (DOMException ''SyntaxError''))"
proof -
  have c1: "parent example_platform example_dom accordion1 ''item'' 6 = Some (Inl TypeError)"
    unfolding parent_def
    by (subst parent_loop.simps) (simp add: node_matches_def example_dom_def)
  have p: "parse_data_selector (parent_data dotted ''item'') = None"
    by (simp add: parse_data_selector_def parent_data_def dotted_def ident_char_def)
  have c2: "parent example_platform example_dom dotted ''item'' 8 =
      Some (Inl (DOMException ''SyntaxError''))"
    unfolding parent_def
    by (subst parent_loop.simps)
      (simp add: node_matches_def example_dom_def example_platform_def p)
  have "strict_ancestors example_dom 6 [5]" "strict_ancestors example_dom 8 [7, 1]"
    "attribute_value example_dom 5 (''data-'' @ name accordion1) \<noteq> Some ''item''"
    "attribute_value example_dom 7 (''data-'' @ name dotted) = Some ''item''"
    by (simp_all add: attribute_value_def attribute_name_def example_dom_def example_defs)
  with c1 c2 show ?thesis by simp
qed

section \<open>The data attributes\<close>

text \<open>
  Claim C7, as amended. On an element, for a name such that \<open>data-<name>\<close> is a name that
  \<open>setAttribute\<close> accepts, \<open>setData\<close> of a value under the name, followed by \<open>getData\<close> of
  the same name on the same element, returns the value written.
\<close>

theorem setData_getData:
  assumes "kind (node D el) = ElementNode"
    and "valid_attribute_name P (''data-'' @ qualifiedName)"
  shows "\<exists>D'. setData P D this qualifiedName v (Some el) = Inr D' \<and>
           getData D' this qualifiedName (Some el) = Inr (Some v)"
proof -
  from assms obtain D' where s: "setAttribute P D el (''data-'' @ qualifiedName) v = Inr D'"
    by (simp add: setAttribute_def)
  from setAttribute_value [OF s] s show ?thesis
    by (simp add: setData_def getData_def getAttribute_def)
qed

theorem setData_getData_witness:
  "kind (node example_dom 3) = ElementNode \<and>
   valid_attribute_name example_platform (''data-'' @ ''Active'') \<and>
   (\<exists>D'. setData example_platform example_dom accordion1 ''Active'' ''false'' (Some 3) = Inr D' \<and>
          getData D' accordion1 ''Active'' (Some 3) = Inr (Some ''false''))"
proof -
  have h1: "kind (node example_dom 3) = ElementNode"
    by (simp add: example_dom_def)
  have h2: "valid_attribute_name example_platform (''data-'' @ ''Active'')"
    by (simp add: example_platform_def example_valid_name_def)
  from setData_getData [OF h1 h2] h1 h2 show ?thesis by blast
qed

text \<open>
  As first stated, for every name, the claim fails: \<open>setData\<close> does not guard the name, and
  \<open>setAttribute\<close> throws on a name with a space, so that nothing is written.
\<close>

theorem setData_getData_counterexample:
  "kind (node example_dom 3) = ElementNode \<and>
   setData example_platform example_dom accordion1 ''a b'' ''v'' (Some 3) =
     Inl (DOMException ''InvalidCharacterError'') \<and>
   getData example_dom accordion1 ''a b'' (Some 3) = Inr None"
  by (simp add: setData_def setAttribute_def getData_def getAttribute_def attribute_value_def
      attribute_name_def example_platform_def example_valid_name_def example_dom_def)

section \<open>The fields of an instance\<close>




section \<open>The caller among the targets, and identities that are not unique\<close>




text \<open>
  Claim C10. \<open>callById\<close> adds at most one invocation. When several entries share the identity,
  the invocation (if the member is a function) is of the member read from the first of them in
  list order, and no invocation is of a member read from another object.
\<close>

theorem callById_single_invocation:
  "length (snd (callById B this i methodName args w tr)) \<le> Suc (length tr) \<and>
   ((modules (heap w this) = pre @ m # post \<and> (\<forall>x\<in>set pre. ID (heap w x) \<noteq> i)
       \<and> ID (heap w m) = i) \<longrightarrow>
      snd (callById B this i methodName args w tr) =
        tr @ expected_invocation w this m methodName args \<and>
      (\<forall>ev\<in>set (drop (length tr) (snd (callById B this i methodName args w tr))). owner ev = m))"
proof (intro conjI impI)
  show "length (snd (callById B this i methodName args w tr)) \<le> Suc (length tr)"
    by (simp add: callById_def callMethod_trace expected_invocation_def
        split: option.split jsval.split)
next
  assume a: "modules (heap w this) = pre @ m # post \<and> (\<forall>x\<in>set pre. ID (heap w x) \<noteq> i)
       \<and> ID (heap w m) = i"
  then have "find (\<lambda>x. ID (heap w x) = i) (modules (heap w this)) = Some m"
    by (intro find_first[where pre=pre and post=post]) simp_all
  then show s: "snd (callById B this i methodName args w tr) =
      tr @ expected_invocation w this m methodName args"
    by (simp add: callById_def callMethod_trace)
  show "\<forall>ev\<in>set (drop (length tr) (snd (callById B this i methodName args w tr))). owner ev = m"
    unfolding s by (auto simp add: expected_invocation_def split: jsval.split)
qed

theorem callById_single_invocation_witness:
  "modules (heap example_world 10) = [10] @ 12 # [11, 13] \<and>
   list_all (\<lambda>x. ID (heap example_world x) \<noteq> 7) [10] \<and>
   ID (heap example_world 12) = 7 \<and> ID (heap example_world 13) = 7 \<and>
   snd (callById example_bodies 10 7 ''close'' [Number 3] example_world []) =
     [Invocation 12 102 10 [Number 3]]"
proof -
  have h: "modules (heap example_world 10) = [10] @ 12 # [11, 13] \<and>
      (\<forall>x\<in>set [10]. ID (heap example_world x) \<noteq> 7) \<and> ID (heap example_world 12) = 7"
    by (simp add: example_defs)
  have h': "ID (heap example_world 13) = 7"
    by (simp add: example_defs)
  from h callById_single_invocation [of example_bodies 10 7 "''close''" "[Number 3]" example_world
      "[]" "[10]" 12 "[11, 13]"]
  have "snd (callById example_bodies 10 7 ''close'' [Number 3] example_world []) =
      [] @ expected_invocation example_world 10 12 ''close'' [Number 3]"
    by blast
  also have "\<dots> = [Invocation 12 102 10 [Number 3]]"
    by (simp add: expected_invocation_def get_member_def example_defs)
  finally show ?thesis using h h' by (simp add: list_all_iff)
qed

end
